theory Spec2Isabelle
  imports Complex_Main "HOL-Library.Product_Lexorder"
begin

section \<open>Python values used by the model\<close>

text \<open>
  Timestamps, durations and opacities are Python floats in the source; the model
  computes with exact rationals. Python's exceptions are values of \<open>py_error\<close>.
\<close>

datatype py_error = IndexError | ValueError | ZeroDivisionError

text \<open>\<^verbatim>\<open>int(x)\<close> on a float truncates towards zero.\<close>

definition py_int :: "rat \<Rightarrow> int" where
  "py_int x = (if 0 \<le> x then \<lfloor>x\<rfloor> else \<lceil>x\<rceil>)"

text \<open>\<^verbatim>\<open>xs[i]\<close> on a list: a negative index counts from the end, anything
  outside \<open>-len .. len-1\<close> raises IndexError.\<close>

definition list_item :: "'a list \<Rightarrow> int \<Rightarrow> py_error + 'a" where
  "list_item xs i =
     (if 0 \<le> i \<and> i < int (length xs) then Inr (xs ! nat i)
      else if i < 0 \<and> - int (length xs) \<le> i then Inr (xs ! nat (int (length xs) + i))
      else Inl IndexError)"

section \<open>FancyText: frame selection of a line clip\<close>




section \<open>FancyText: grouping words into lines\<close>

text \<open>
  \<^verbatim>\<open>_group_words_into_lines(words, pil_font, max_words, max_width_px)\<close>.
  The font enters only through the measured width of a candidate line,
  \<^verbatim>\<open>bbox[2] - bbox[0]\<close> of \<^verbatim>\<open>" ".join(candidate)\<close>; that measurement is the
  parameter \<open>bbox_w\<close>. The \<^verbatim>\<open>for\<close> loop is the recursion \<open>group_loop\<close> over
  the remaining words, carrying \<^verbatim>\<open>lines\<close> and \<^verbatim>\<open>current\<close>.
\<close>

fun join_sp :: "string list \<Rightarrow> string" where
  "join_sp [] = []"
| "join_sp [w] = w"
| "join_sp (w # ws) = w @ '' '' @ join_sp ws"

fun group_loop ::
  "(string \<Rightarrow> int) \<Rightarrow> int \<Rightarrow> int \<Rightarrow> string list list \<Rightarrow> string list \<Rightarrow> string list
     \<Rightarrow> string list list \<times> string list" where
  "group_loop bbox_w max_words max_width_px lines current [] = (lines, current)"
| "group_loop bbox_w max_words max_width_px lines current (word # ws) =
     (let candidate = current @ [word] in
      if int (length candidate) > max_words then
        group_loop bbox_w max_words max_width_px
          (if current \<noteq> [] then lines @ [current] else lines) [word] ws
      else if bbox_w (join_sp candidate) > max_width_px \<and> current \<noteq> [] then
        group_loop bbox_w max_words max_width_px (lines @ [current]) [word] ws
      else group_loop bbox_w max_words max_width_px lines candidate ws)"

definition group_words_into_lines ::
  "string list \<Rightarrow> (string \<Rightarrow> int) \<Rightarrow> int \<Rightarrow> int \<Rightarrow> string list list" where
  "group_words_into_lines words bbox_w max_words max_width_px =
     (case group_loop bbox_w max_words max_width_px [] [] words of
        (lines, current) \<Rightarrow> if current \<noteq> [] then lines @ [current] else lines)"

text \<open>
  How often the pixel-width branch of the loop closes a line during the run on the
  same inputs (the word-count branch is checked first, as in the loop).
\<close>

fun width_breaks ::
  "(string \<Rightarrow> int) \<Rightarrow> int \<Rightarrow> int \<Rightarrow> string list \<Rightarrow> string list \<Rightarrow> nat" where
  "width_breaks bbox_w max_words max_width_px current [] = 0"
| "width_breaks bbox_w max_words max_width_px current (word # ws) =
     (let candidate = current @ [word] in
      if int (length candidate) > max_words then
        width_breaks bbox_w max_words max_width_px [word] ws
      else if bbox_w (join_sp candidate) > max_width_px \<and> current \<noteq> [] then
        Suc (width_breaks bbox_w max_words max_width_px [word] ws)
      else width_breaks bbox_w max_words max_width_px candidate ws)"


section \<open>FancyText: the per-line frame cache\<close>

text \<open>
  \<^verbatim>\<open>_render_fancytext_frame\<close>. The cold path pre-renders, for a line of \<open>n\<close> words,
  one frame per \<^verbatim>\<open>hi in range(n)\<close>: a copy of the shared base, the highlight box
  of word \<open>hi\<close> when boxes are enabled, then for every \<^verbatim>\<open>i in range(n)\<close> the
  highlight image of word \<open>i\<close> if \<^verbatim>\<open>i == hi\<close> and its normal image otherwise.
  A frame is represented by that ordered list of pasted pieces (the pixels are the
  imaging library's rendering of it); the text-only mask of a frame is the same
  list without the box. The layout entries of the cache dictionary
  (\<^verbatim>\<open>word_xs\<close>, \<^verbatim>\<open>x\<close>, \<^verbatim>\<open>y\<close>) come from the font metrics and are not
  read by the fast path; they are left out.
\<close>

datatype piece = HighlightBox nat | NormalWord nat | HighlightWord nat

definition text_only_pieces :: "nat \<Rightarrow> nat \<Rightarrow> piece list" where
  "text_only_pieces n hi = map (\<lambda>i. if i = hi then HighlightWord i else NormalWord i) [0..<n]"

definition frame_pieces :: "nat \<Rightarrow> bool \<Rightarrow> nat \<Rightarrow> piece list" where
  "frame_pieces n highlight_box_enabled hi =
     (if highlight_box_enabled then [HighlightBox hi] else []) @ text_only_pieces n hi"

text \<open>The cache dictionary: a key that is absent is \<open>None\<close>.\<close>

record line_cache =
  np_frames :: "piece list list option"
  text_only_masks :: "piece list list option"

text \<open>
  The call returns the frame (or raises) and leaves the dictionary as the second
  component; \<^verbatim>\<open>_base_cache=None\<close> is \<open>None\<close>.
\<close>

definition render_fancytext_frame ::
  "string list \<Rightarrow> int \<Rightarrow> bool \<Rightarrow> line_cache option
     \<Rightarrow> (py_error + piece list) \<times> line_cache option" where
  "render_fancytext_frame words highlight_index highlight_box_enabled cache =
     (case (case cache of None \<Rightarrow> None | Some c \<Rightarrow> np_frames c) of
        Some frames \<Rightarrow> (list_item frames (max 0 highlight_index), cache)
      | None \<Rightarrow>
          (let n = length words;
               frames = map (frame_pieces n highlight_box_enabled) [0..<n];
               masks = map (text_only_pieces n) [0..<n];
               cache' = (case cache of
                           None \<Rightarrow> None
                         | Some c \<Rightarrow> Some (c\<lparr>np_frames := Some frames,
                                              text_only_masks := Some masks\<rparr>))
           in (list_item frames (max 0 highlight_index), cache')))"

section \<open>FancyText: rasters and the effect pipeline\<close>

text \<open>
  A raster is the list of its rows. The channels of a \<^verbatim>\<open>uint8\<close> array are
  naturals; every value the modelled code stores has been clipped to \<open>0..255\<close>
  first, as in the source. A colour stop is a tuple of Python ints.
\<close>

type_synonym 'a raster = "'a list list"
type_synonym rgb = "nat \<times> nat \<times> nat"
type_synonym rgba = "nat \<times> nat \<times> nat \<times> nat"
type_synonym color = "int \<times> int \<times> int"

definition width :: "'a raster \<Rightarrow> nat" where
  "width r = (case r of [] \<Rightarrow> 0 | row # _ \<Rightarrow> length row)"

definition height :: "'a raster \<Rightarrow> nat" where
  "height r = length r"

text \<open>\<^verbatim>\<open>np.clip(v, lo, hi)\<close> and \<^verbatim>\<open>.astype(np.uint8)\<close> of a value already
  clipped to \<open>0..255\<close> (the cast truncates).\<close>

definition np_clip :: "rat \<Rightarrow> rat \<Rightarrow> rat \<Rightarrow> rat" where
  "np_clip v lo hi = min hi (max lo v)"

definition to_uint8 :: "rat \<Rightarrow> nat" where
  "to_uint8 v = nat (py_int v)"

text \<open>
  What the pipeline takes from outside the modelled code. \<open>fl32\<close> is the rounding
  that numpy applies to the result of every \<^verbatim>\<open>float32\<close> array operation (the
  identity in exact arithmetic); \<open>cos_deg\<close> and \<open>sin_deg\<close> are
  \<^verbatim>\<open>math.cos(math.radians(a))\<close> and \<^verbatim>\<open>math.sin(math.radians(a))\<close>;
  \<open>open_rgb\<close> is \<^verbatim>\<open>Image.open(path).convert("RGB")\<close>, \<open>None\<close> when it raises;
  \<open>min_filter\<close> is \<^verbatim>\<open>ImageFilter.MinFilter\<close>. The bodies of
  \<^verbatim>\<open>_fx_bevel_emboss\<close>, \<^verbatim>\<open>_fx_inner_shadow\<close>, \<^verbatim>\<open>_fx_inner_glow\<close> and the
  tiling and blending part of \<^verbatim>\<open>_fx_texture\<close> are chains of the imaging
  library's filters (Gaussian blur, affine and Lanczos resampling); they are
  arbitrary functions of the arguments the source passes to them.
\<close>

record effects_env =
  fl32 :: "rat \<Rightarrow> rat"
  cos_deg :: "rat \<Rightarrow> rat"
  sin_deg :: "rat \<Rightarrow> rat"
  open_rgb :: "string \<Rightarrow> rgb raster option"
  min_filter :: "int \<Rightarrow> nat raster \<Rightarrow> nat raster"
  texture_fill :: "rgba raster \<Rightarrow> nat raster \<Rightarrow> rgb raster \<Rightarrow> rat \<Rightarrow> rat \<Rightarrow> string \<Rightarrow> rgba raster"
  bevel_emboss :: "rgba raster \<Rightarrow> nat raster \<Rightarrow> string \<Rightarrow> rat \<Rightarrow> rat \<Rightarrow> color \<Rightarrow> color
                     \<Rightarrow> rat \<Rightarrow> rat \<Rightarrow> rat \<Rightarrow> rgba raster"
  inner_shadow :: "rgba raster \<Rightarrow> nat raster \<Rightarrow> nat raster \<Rightarrow> color \<Rightarrow> int \<times> int \<Rightarrow> rat \<Rightarrow> rat
                     \<Rightarrow> rgba raster"
  inner_glow :: "rgba raster \<Rightarrow> nat raster \<Rightarrow> nat raster \<Rightarrow> color \<Rightarrow> rat \<Rightarrow> rat \<Rightarrow> rgba raster"

subsection \<open>Gradient synthesis and overlay\<close>

text \<open>
  \<^verbatim>\<open>_create_linear_gradient\<close>, pixel by pixel (the numpy operations are
  elementwise). \<open>gradient_t\<close> is the array \<^verbatim>\<open>t\<close> at column \<open>x\<close>, row \<open>y\<close>.
\<close>

definition gradient_t :: "effects_env \<Rightarrow> nat \<Rightarrow> nat \<Rightarrow> rat \<Rightarrow> nat \<Rightarrow> nat \<Rightarrow> rat" where
  "gradient_t env w h angle_deg x y =
     (let cos_a = cos_deg env angle_deg;
          sin_a = sin_deg env angle_deg;
          X = fl32 env (of_nat x - of_nat w / 2);
          Y = fl32 env (of_nat y - of_nat h / 2);
          proj = fl32 env (fl32 env (X * cos_a) + fl32 env (Y * sin_a));
          max_proj = \<bar>cos_a\<bar> * of_nat w / 2 + \<bar>sin_a\<bar> * of_nat h / 2
      in np_clip (fl32 env (fl32 env (fl32 env (proj / max max_proj 1) + 1) / 2)) 0 1)"

text \<open>One channel of \<^verbatim>\<open>val.clip(0, 255).astype(np.uint8)\<close>.\<close>

definition lerp_channel :: "effects_env \<Rightarrow> int \<Rightarrow> int \<Rightarrow> rat \<Rightarrow> nat" where
  "lerp_channel env a b seg_t =
     to_uint8 (np_clip (fl32 env (fl32 env (of_int a * fl32 env (1 - seg_t))
                                  + fl32 env (of_int b * seg_t))) 0 255)"

text \<open>The body of \<^verbatim>\<open>for i in range(n - 1)\<close> at one pixel; \<open>colors\<close> has at least
  \<open>i + 2\<close> stops.\<close>

definition gradient_segment :: "effects_env \<Rightarrow> color list \<Rightarrow> nat \<Rightarrow> rat \<Rightarrow> rgb \<Rightarrow> nat \<Rightarrow> rgb" where
  "gradient_segment env colors n t px i =
     (let t0 = of_nat i / of_nat (n - 1);
          t1 = of_nat (i + 1) / of_nat (n - 1);
          span = t1 - t0
      in if span \<le> 0 then px
         else if t0 \<le> t \<and> t \<le> t1 then
           (let seg_t = np_clip (fl32 env (fl32 env (t - t0) / span)) 0 1
            in case (colors ! i, colors ! (i + 1)) of
                 ((r0, g0, b0), (r1, g1, b1)) \<Rightarrow>
                   (lerp_channel env r0 r1 seg_t,
                    lerp_channel env g0 g1 seg_t,
                    lerp_channel env b0 b1 seg_t))
         else px)"

definition create_linear_gradient ::
  "effects_env \<Rightarrow> nat \<Rightarrow> nat \<Rightarrow> color list \<Rightarrow> rat \<Rightarrow> py_error + rgba raster" where
  "create_linear_gradient env w h colors angle_deg =
     (let colors' = (if length colors < 2 then colors @ colors else colors);
          n = (if length colors < 2 then 2 else length colors)
      in if colors' = [] then Inl IndexError
         else Inr (map (\<lambda>y. map (\<lambda>x.
                 (case foldl (gradient_segment env colors' n (gradient_t env w h angle_deg x y))
                         (0, 0, 0) [0..<n - 1] of
                    (r, g, b) \<Rightarrow> (r, g, b, 255))) [0..<w]) [0..<h]))"

text \<open>
  \<^verbatim>\<open>Image.alpha_composite\<close> at one pixel, destination first: the integer
  arithmetic of the imaging library (seven bits of extra precision, rounded
  division by 255).
\<close>

definition shift_for_div255 :: "nat \<Rightarrow> nat" where
  "shift_for_div255 a = ((a div 256) + a) div 256"

definition alpha_composite_px :: "rgba \<Rightarrow> rgba \<Rightarrow> rgba" where
  "alpha_composite_px dst src =
     (case (dst, src) of ((dr, dg, db, da), (sr, sg, sb, sa)) \<Rightarrow>
        if sa = 0 then dst
        else (let blend = da * (255 - sa);
                  outa255 = sa * 255 + blend;
                  coef1 = sa * 255 * 255 * 128 div outa255;
                  coef2 = 255 * 128 - coef1
              in (shift_for_div255 (sr * coef1 + dr * coef2 + 128 * 128) div 128,
                  shift_for_div255 (sg * coef1 + dg * coef2 + 128 * 128) div 128,
                  shift_for_div255 (sb * coef1 + db * coef2 + 128 * 128) div 128,
                  shift_for_div255 (outa255 + 128))))"

text \<open>The alpha that \<^verbatim>\<open>_fx_gradient_overlay\<close> writes into the gradient at a pixel
  whose mask value is \<open>m\<close>.\<close>

definition overlay_alpha :: "effects_env \<Rightarrow> rat \<Rightarrow> nat \<Rightarrow> nat" where
  "overlay_alpha env opacity m =
     (let mask_arr = fl32 env (of_nat m / 255);
          opa = max 0 (min 1 opacity)
      in to_uint8 (np_clip (fl32 env (fl32 env (mask_arr * 255) * opa)) 0 255))"

definition fx_gradient_overlay ::
  "effects_env \<Rightarrow> rgba raster \<Rightarrow> nat raster \<Rightarrow> color list option \<Rightarrow> rat \<Rightarrow> rat
     \<Rightarrow> py_error + rgba raster" where
  "fx_gradient_overlay env img text_mask colors angle opacity =
     (let colors' = (case colors of None \<Rightarrow> [(255, 215, 0), (255, 140, 0)] | Some cs \<Rightarrow> cs);
          w = width img;
          h = height img
      in case create_linear_gradient env w h colors' angle of
           Inl e \<Rightarrow> Inl e
         | Inr gradient \<Rightarrow>
             Inr (map (\<lambda>y. map (\<lambda>x.
                    (case gradient ! y ! x of (r, g, b, a) \<Rightarrow>
                       alpha_composite_px (img ! y ! x)
                         (r, g, b, overlay_alpha env opacity (text_mask ! y ! x))))
                  [0..<w]) [0..<h]))"

subsection \<open>Texture fill\<close>

text \<open>\<^verbatim>\<open>_fx_texture\<close>: the texture is the in-memory image if there is one, else
  the file at \<open>path\<close>; a file that cannot be opened, or no source at all, returns
  the image as it came.\<close>

definition fx_texture ::
  "effects_env \<Rightarrow> rgba raster \<Rightarrow> nat raster \<Rightarrow> string option \<Rightarrow> rat \<Rightarrow> rat \<Rightarrow> string
     \<Rightarrow> rgb raster option \<Rightarrow> rgba raster" where
  "fx_texture env img text_mask path scale opacity blend_mode texture_image =
     (case texture_image of
        Some tex \<Rightarrow> texture_fill env img text_mask tex scale opacity blend_mode
      | None \<Rightarrow>
          (case path of
             Some p \<Rightarrow>
               (case open_rgb env p of
                  None \<Rightarrow> img
                | Some tex \<Rightarrow> texture_fill env img text_mask tex scale opacity blend_mode)
           | None \<Rightarrow> img))"

subsection \<open>Chrome preset and the pipeline\<close>

definition chrome_default_colors :: "color list" where
  "chrome_default_colors =
     [(255, 255, 255), (210, 215, 230), (100, 105, 130), (245, 248, 255), (120, 125, 150),
      (250, 252, 255), (80, 85, 110), (230, 235, 248), (60, 65, 90)]"

definition fx_chrome ::
  "effects_env \<Rightarrow> rgba raster \<Rightarrow> nat raster \<Rightarrow> color list option \<Rightarrow> rat \<Rightarrow> nat raster option
     \<Rightarrow> py_error + rgba raster" where
  "fx_chrome env img text_mask colors opacity fill_mask =
     (let colors' = (case colors of None \<Rightarrow> chrome_default_colors | Some cs \<Rightarrow> cs);
          opa = max 0 (min 1 opacity);
          grad_mask = (case fill_mask of Some fm \<Rightarrow> fm | None \<Rightarrow> text_mask)
      in case fx_gradient_overlay env img grad_mask (Some colors') 90 opa of
           Inl e \<Rightarrow> Inl e
         | Inr img' \<Rightarrow>
             Inr (bevel_emboss env img' text_mask ''inner_bevel'' 8 135 (255, 255, 255) (20, 20, 45)
                    (min 1 (opa + 1/2)) (min 1 (opa * (3/4))) 1))"

record fx_args =
  stroke_width :: int
  inner_shadow_enabled :: bool
  inner_shadow_color :: color
  inner_shadow_offset :: "int \<times> int"
  inner_shadow_blur :: rat
  inner_shadow_opacity :: rat
  inner_glow_enabled :: bool
  inner_glow_color :: color
  inner_glow_size :: rat
  inner_glow_opacity :: rat
  gradient_overlay_enabled :: bool
  gradient_overlay_colors :: "color list"
  gradient_overlay_angle :: rat
  gradient_overlay_opacity :: rat
  bevel_emboss_enabled :: bool
  bevel_emboss_style :: string
  bevel_emboss_depth :: rat
  bevel_emboss_angle :: rat
  bevel_emboss_highlight_color :: color
  bevel_emboss_shadow_color :: color
  bevel_emboss_highlight_opacity :: rat
  bevel_emboss_shadow_opacity :: rat
  bevel_emboss_soften :: rat
  texture_enabled :: bool
  texture_path :: "string option"
  texture_scale :: rat
  texture_opacity :: rat
  texture_blend_mode :: string
  texture_image :: "rgb raster option"
  chrome_enabled :: bool
  chrome_colors :: "color list option"
  chrome_opacity :: rat

text \<open>
  \<^verbatim>\<open>apply_advanced_effects\<close>. \<^verbatim>\<open>Image.fromarray\<close> on entry and
  \<^verbatim>\<open>np.array\<close> on exit carry the same pixels; each \<^verbatim>\<open>if ..._enabled\<close> of the
  source is one stage below, in the source's order.
\<close>

definition fill_mask_of :: "effects_env \<Rightarrow> int \<Rightarrow> nat raster \<Rightarrow> nat raster" where
  "fill_mask_of env sw text_mask =
     (if sw > 1 then
        (let ks = max 3 (sw * 2 - 1);
             ks' = (if ks mod 2 = 0 then ks + 1 else ks)
         in min_filter env ks' text_mask)
      else text_mask)"

definition stage_chrome ::
  "effects_env \<Rightarrow> fx_args \<Rightarrow> nat raster \<Rightarrow> nat raster \<Rightarrow> rgba raster \<Rightarrow> py_error + rgba raster" where
  "stage_chrome env a text_mask fill_mask img =
     (if chrome_enabled a
      then fx_chrome env img text_mask (chrome_colors a) (chrome_opacity a) (Some fill_mask)
      else Inr img)"

definition stage_gradient ::
  "effects_env \<Rightarrow> fx_args \<Rightarrow> nat raster \<Rightarrow> rgba raster \<Rightarrow> py_error + rgba raster" where
  "stage_gradient env a fill_mask img =
     (if gradient_overlay_enabled a
      then fx_gradient_overlay env img fill_mask (Some (gradient_overlay_colors a))
             (gradient_overlay_angle a) (gradient_overlay_opacity a)
      else Inr img)"

definition stage_texture ::
  "effects_env \<Rightarrow> fx_args \<Rightarrow> nat raster \<Rightarrow> nat raster \<Rightarrow> rgba raster \<Rightarrow> rgba raster" where
  "stage_texture env a text_mask fill_mask img =
     (if texture_enabled a
      then fx_texture env img (if stroke_width a > 1 then fill_mask else text_mask)
             (texture_path a) (texture_scale a) (texture_opacity a) (texture_blend_mode a)
             (texture_image a)
      else img)"

definition stage_bevel :: "effects_env \<Rightarrow> fx_args \<Rightarrow> nat raster \<Rightarrow> rgba raster \<Rightarrow> rgba raster" where
  "stage_bevel env a text_mask img =
     (if bevel_emboss_enabled a
      then bevel_emboss env img text_mask (bevel_emboss_style a) (bevel_emboss_depth a)
             (bevel_emboss_angle a) (bevel_emboss_highlight_color a) (bevel_emboss_shadow_color a)
             (bevel_emboss_highlight_opacity a) (bevel_emboss_shadow_opacity a)
             (bevel_emboss_soften a)
      else img)"

definition stage_inner_shadow ::
  "effects_env \<Rightarrow> fx_args \<Rightarrow> nat raster \<Rightarrow> nat raster \<Rightarrow> rgba raster \<Rightarrow> rgba raster" where
  "stage_inner_shadow env a text_mask fill_mask img =
     (if inner_shadow_enabled a
      then inner_shadow env img (if stroke_width a > 1 then fill_mask else text_mask) text_mask
             (inner_shadow_color a) (inner_shadow_offset a) (inner_shadow_blur a)
             (inner_shadow_opacity a)
      else img)"

definition stage_inner_glow ::
  "effects_env \<Rightarrow> fx_args \<Rightarrow> nat raster \<Rightarrow> nat raster \<Rightarrow> rgba raster \<Rightarrow> rgba raster" where
  "stage_inner_glow env a text_mask fill_mask img =
     (if inner_glow_enabled a
      then inner_glow env img (if stroke_width a > 1 then fill_mask else text_mask) text_mask
             (inner_glow_color a) (inner_glow_size a) (inner_glow_opacity a)
      else img)"

definition apply_advanced_effects ::
  "effects_env \<Rightarrow> rgba raster \<Rightarrow> nat raster \<Rightarrow> fx_args \<Rightarrow> py_error + rgba raster" where
  "apply_advanced_effects env frame_arr text_mask_arr a =
     (let text_mask = text_mask_arr;
          fill_mask = fill_mask_of env (stroke_width a) text_mask
      in case stage_chrome env a text_mask fill_mask frame_arr of
           Inl e \<Rightarrow> Inl e
         | Inr img1 \<Rightarrow>
             (case stage_gradient env a fill_mask img1 of
                Inl e \<Rightarrow> Inl e
              | Inr img2 \<Rightarrow>
                  Inr (stage_inner_glow env a text_mask fill_mask
                        (stage_inner_shadow env a text_mask fill_mask
                          (stage_bevel env a text_mask
                            (stage_texture env a text_mask fill_mask img2))))))"

text \<open>The keyword defaults of \<^verbatim>\<open>apply_advanced_effects\<close>.\<close>

definition default_fx_args :: fx_args where
  "default_fx_args =
     \<lparr>stroke_width = 0,
      inner_shadow_enabled = False, inner_shadow_color = (0, 0, 0),
      inner_shadow_offset = (3, 3), inner_shadow_blur = 5, inner_shadow_opacity = 3/4,
      inner_glow_enabled = False, inner_glow_color = (255, 255, 255),
      inner_glow_size = 6, inner_glow_opacity = 3/4,
      gradient_overlay_enabled = False,
      gradient_overlay_colors = [(255, 215, 0), (255, 140, 0)],
      gradient_overlay_angle = 0, gradient_overlay_opacity = 4/5,
      bevel_emboss_enabled = False, bevel_emboss_style = ''inner_bevel'',
      bevel_emboss_depth = 3, bevel_emboss_angle = 135,
      bevel_emboss_highlight_color = (255, 255, 255), bevel_emboss_shadow_color = (0, 0, 0),
      bevel_emboss_highlight_opacity = 3/4, bevel_emboss_shadow_opacity = 3/4,
      bevel_emboss_soften = 0,
      texture_enabled = False, texture_path = None, texture_scale = 1,
      texture_opacity = 1/2, texture_blend_mode = ''overlay'', texture_image = None,
      chrome_enabled = False, chrome_colors = None, chrome_opacity = 9/10\<rparr>"

text \<open>
  An environment for running the model on concrete inputs: exact arithmetic, the
  cosine and sine of the angle 0, a file system without readable images; the
  filters that are not modelled hand back the image or mask they are given.
\<close>

definition test_env :: effects_env where
  "test_env =
     \<lparr>fl32 = (\<lambda>v. v), cos_deg = (\<lambda>a. 1), sin_deg = (\<lambda>a. 0),
      open_rgb = (\<lambda>p. None), min_filter = (\<lambda>ks m. m),
      texture_fill = (\<lambda>img m tex scale opacity mode. img),
      bevel_emboss = (\<lambda>img m style depth angle hc sc ho so soften. img),
      inner_shadow = (\<lambda>img m cm c off blur opacity. img),
      inner_glow = (\<lambda>img m cm c sz opacity. img)\<rparr>"

section \<open>FancyText: frame selection, properties\<close>


lemma quotient_nonneg: "0 < wd \<Longrightarrow> 0 \<le> t \<Longrightarrow> 0 \<le> t / (wd::rat)"
  by simp





section \<open>FancyText: grouping words into lines, properties\<close>

lemma group_loop_count_break:
  "int (length (current @ [word])) > mw \<Longrightarrow>
   group_loop bw mw mpx lines current (word # ws)
     = group_loop bw mw mpx (if current \<noteq> [] then lines @ [current] else lines) [word] ws"
  by (simp add: Let_def)

lemma group_loop_width_break:
  "\<not> int (length (current @ [word])) > mw \<Longrightarrow>
   bw (join_sp (current @ [word])) > mpx \<Longrightarrow> current \<noteq> [] \<Longrightarrow>
   group_loop bw mw mpx lines current (word # ws)
     = group_loop bw mw mpx (lines @ [current]) [word] ws"
  by (simp add: Let_def)

lemma group_loop_extend:
  "\<not> int (length (current @ [word])) > mw \<Longrightarrow>
   \<not> (bw (join_sp (current @ [word])) > mpx \<and> current \<noteq> []) \<Longrightarrow>
   group_loop bw mw mpx lines current (word # ws)
     = group_loop bw mw mpx lines (current @ [word]) ws"
  by (cases "bw (join_sp (current @ [word])) > mpx") (simp_all add: Let_def)

lemma width_breaks_count_break:
  "int (length (current @ [word])) > mw \<Longrightarrow>
   width_breaks bw mw mpx current (word # ws) = width_breaks bw mw mpx [word] ws"
  by (simp add: Let_def)

lemma width_breaks_width_break:
  "\<not> int (length (current @ [word])) > mw \<Longrightarrow>
   bw (join_sp (current @ [word])) > mpx \<Longrightarrow> current \<noteq> [] \<Longrightarrow>
   width_breaks bw mw mpx current (word # ws) = Suc (width_breaks bw mw mpx [word] ws)"
  by (simp add: Let_def)

lemma width_breaks_extend:
  "\<not> int (length (current @ [word])) > mw \<Longrightarrow>
   \<not> (bw (join_sp (current @ [word])) > mpx \<and> current \<noteq> []) \<Longrightarrow>
   width_breaks bw mw mpx current (word # ws) = width_breaks bw mw mpx (current @ [word]) ws"
  by (cases "bw (join_sp (current @ [word])) > mpx") (simp_all add: Let_def)

declare group_loop.simps(2) [simp del]
declare width_breaks.simps(2) [simp del]

text \<open>The list returned once the loop has ended: the open line is closed if it holds a word.\<close>

lemma group_loop_concat:
  "group_loop bw mw mpx lines current ws = (L, c) \<Longrightarrow>
     concat L @ c = concat lines @ current @ ws"
proof (induction ws arbitrary: lines current)
  case Nil
  then show ?case by simp
next
  case (Cons word ws)
  show ?case
  proof (cases "int (length (current @ [word])) > mw")
    case True
    have "group_loop bw mw mpx (if current \<noteq> [] then lines @ [current] else lines) [word] ws = (L, c)"
      using Cons.prems group_loop_count_break[OF True] by simp
    from Cons.IH[OF this] show ?thesis by simp
  next
    case False
    show ?thesis
    proof (cases "bw (join_sp (current @ [word])) > mpx \<and> current \<noteq> []")
      case True
      then have "group_loop bw mw mpx (lines @ [current]) [word] ws = (L, c)"
        using Cons.prems group_loop_width_break[OF False] by simp
      from Cons.IH[OF this] show ?thesis by simp
    next
      case nw: False
      have "group_loop bw mw mpx lines (current @ [word]) ws = (L, c)"
        using Cons.prems group_loop_extend[where bw=bw and mpx=mpx, OF False nw] by simp
      from Cons.IH[OF this] show ?thesis by simp
    qed
  qed
qed

lemma group_loop_bound:
  assumes "1 \<le> mw"
  shows "group_loop bw mw mpx lines current ws = (L, c) \<Longrightarrow>
     \<forall>l\<in>set lines. int (length l) \<le> mw \<and> l \<noteq> [] \<Longrightarrow> int (length current) \<le> mw \<Longrightarrow>
     (\<forall>l\<in>set L. int (length l) \<le> mw \<and> l \<noteq> []) \<and> int (length c) \<le> mw"
proof (induction ws arbitrary: lines current)
  case Nil
  then show ?case by simp
next
  case (Cons word ws)
  have one: "int (length [word]) \<le> mw" using assms by simp
  show ?case
  proof (cases "int (length (current @ [word])) > mw")
    case True
    have "group_loop bw mw mpx (if current \<noteq> [] then lines @ [current] else lines) [word] ws = (L, c)"
      using Cons.prems(1) group_loop_count_break[OF True] by simp
    moreover have "\<forall>l\<in>set (if current \<noteq> [] then lines @ [current] else lines).
        int (length l) \<le> mw \<and> l \<noteq> []"
      using Cons.prems(2,3) by simp
    ultimately show ?thesis using one by (rule Cons.IH)
  next
    case False
    show ?thesis
    proof (cases "bw (join_sp (current @ [word])) > mpx \<and> current \<noteq> []")
      case True
      then have "group_loop bw mw mpx (lines @ [current]) [word] ws = (L, c)"
        using Cons.prems(1) group_loop_width_break[OF False] by simp
      moreover have "\<forall>l\<in>set (lines @ [current]). int (length l) \<le> mw \<and> l \<noteq> []"
        using Cons.prems(2,3) True by simp
      ultimately show ?thesis using one by (rule Cons.IH)
    next
      case nw: False
      have "group_loop bw mw mpx lines (current @ [word]) ws = (L, c)"
        using Cons.prems(1) group_loop_extend[where bw=bw and mpx=mpx, OF False nw] by simp
      moreover have "int (length (current @ [word])) \<le> mw" using False by simp
      ultimately show ?thesis using Cons.prems(2) Cons.IH by blast
    qed
  qed
qed

lemma ceil_small:
  assumes "0 < m" "c \<le> m"
  shows "(c + m - 1) div m = (if c = 0 then 0 else (1::nat))"
proof (cases "c = 0")
  case True
  then show ?thesis using assms by simp
next
  case False
  then have e: "c + m - 1 = m + (c - 1)" by simp
  have "c - 1 < m" using False assms by simp
  then have "(m + (c - 1)) div m = 1" using assms(1) by simp
  then show ?thesis using False e by simp
qed

lemma ceil_shift:
  assumes "0 < (m::nat)"
  shows "(m + k + m - 1) div m = Suc ((k + m - 1) div m)"
proof -
  have e: "m + k + m - 1 = m + (k + m - 1)" using assms by simp
  have "(m + (k + m - 1)) div m = (k + m - 1) div m + 1"
    using assms by (simp only: div_add_self1)
  then show ?thesis unfolding e by simp
qed

lemma group_loop_exact:
  assumes "1 \<le> mw"
  shows "group_loop bw mw mpx lines current ws = (L, c) \<Longrightarrow>
     int (length current) \<le> mw \<Longrightarrow> width_breaks bw mw mpx current ws = 0 \<Longrightarrow>
     length (if c \<noteq> [] then L @ [c] else L)
       = length lines + (length current + length ws + nat mw - 1) div nat mw"
proof (induction ws arbitrary: lines current)
  case Nil
  have "0 < nat mw" "length current \<le> nat mw" using assms Nil by auto
  from ceil_small[OF this] show ?case using Nil by simp
next
  case (Cons word ws)
  have m: "0 < nat mw" using assms by simp
  show ?case
  proof (cases "int (length (current @ [word])) > mw")
    case True
    then have len: "length current = nat mw" using Cons.prems(2) by simp
    then have ne: "current \<noteq> []" using m by auto
    have wb: "width_breaks bw mw mpx [word] ws = 0"
      using Cons.prems(3) width_breaks_count_break[OF True] by simp
    have one: "int (length [word]) \<le> mw" using assms by simp
    have run: "group_loop bw mw mpx (lines @ [current]) [word] ws = (L, c)"
      using Cons.prems(1) group_loop_count_break[OF True] ne by simp
    have ih: "length (if c \<noteq> [] then L @ [c] else L)
       = length (lines @ [current]) + (length [word] + length ws + nat mw - 1) div nat mw"
      using run one wb by (rule Cons.IH)
    have sh: "(nat mw + (1 + length ws) + nat mw - 1) div nat mw
        = Suc (((1 + length ws) + nat mw - 1) div nat mw)"
      using m by (rule ceil_shift)
    show ?thesis unfolding ih using sh len by simp
  next
    case False
    have nw: "\<not> (bw (join_sp (current @ [word])) > mpx \<and> current \<noteq> [])"
    proof
      assume a: "bw (join_sp (current @ [word])) > mpx \<and> current \<noteq> []"
      have "width_breaks bw mw mpx current (word # ws)
          = Suc (width_breaks bw mw mpx [word] ws)"
        using False a by (simp add: width_breaks_width_break)
      then show False using Cons.prems(3) by simp
    qed
    have wb: "width_breaks bw mw mpx (current @ [word]) ws = 0"
      using Cons.prems(3) width_breaks_extend[where bw=bw and mpx=mpx, OF False nw] by simp
    have le: "int (length (current @ [word])) \<le> mw" using False by simp
    have run: "group_loop bw mw mpx lines (current @ [word]) ws = (L, c)"
      using Cons.prems(1) group_loop_extend[where bw=bw and mpx=mpx, OF False nw] by simp
    have ih: "length (if c \<noteq> [] then L @ [c] else L)
       = length lines + (length (current @ [word]) + length ws + nat mw - 1) div nat mw"
      using run le wb by (rule Cons.IH)
    show ?thesis unfolding ih by simp
  qed
qed

lemma concat_length_bound:
  "\<forall>l\<in>set L. length l \<le> m \<Longrightarrow> length (concat L) \<le> m * length L"
  by (induction L) auto


lemma ceiling_nat_div:
  assumes "0 < m"
  shows "\<lceil>rat_of_nat n / rat_of_nat m\<rceil> = int ((n + m - 1) div m)"
proof -
  let ?q = "(n + m - 1) div m"
  have lo: "?q * m \<le> n + m - 1" by (rule div_times_less_eq_dividend)
  have hi: "n + m - 1 < m + ?q * m" using assms by (rule dividend_less_div_times)
  have a: "n \<le> ?q * m" using hi assms by linarith
  have b: "int ?q * int m - int m < int n"
  proof -
    have "int (?q * m) \<le> int (n + m - 1)" using lo by (simp only: of_nat_le_iff)
    then show ?thesis using assms by (simp add: of_nat_diff)
  qed
  have m: "0 < rat_of_nat m" using assms by simp
  have "rat_of_nat n \<le> rat_of_nat (?q * m)" using a by (simp only: of_nat_le_iff)
  then have up: "rat_of_nat n / rat_of_nat m \<le> of_int (int ?q)"
    using m by (simp add: pos_divide_le_eq)
  have "rat_of_int (int ?q * int m - int m) < rat_of_int (int n)" using b by (simp only: of_int_less_iff)
  then have "(rat_of_nat ?q - 1) * rat_of_nat m < rat_of_nat n"
    by (simp add: algebra_simps)
  then have down: "of_int (int ?q) - 1 < rat_of_nat n / rat_of_nat m"
    using m by (simp add: pos_less_divide_eq)
  show ?thesis using down up by (rule ceiling_unique)
qed

text \<open>
  Claim C4. With a word-count cap of at least one, the grouping of any word list
  (in particular any non-empty one) has at least \<open>ceil (word_count / max_words)\<close>
  lines, exactly that many when the pixel-width branch never closes a line, no
  line has more than \<open>max_words\<close> words, and the lines concatenated in order are
  the input words.
\<close>

theorem line_grouping:
  assumes "1 \<le> max_words"
  shows "\<lceil>rat_of_nat (length words) / rat_of_int max_words\<rceil>
           \<le> int (length (group_words_into_lines words bbox_w max_words max_width_px))
       \<and> (width_breaks bbox_w max_words max_width_px [] words = 0 \<longrightarrow>
            int (length (group_words_into_lines words bbox_w max_words max_width_px))
              = \<lceil>rat_of_nat (length words) / rat_of_int max_words\<rceil>)
       \<and> (\<forall>l\<in>set (group_words_into_lines words bbox_w max_words max_width_px).
            int (length l) \<le> max_words)
       \<and> concat (group_words_into_lines words bbox_w max_words max_width_px) = words"
proof -
  obtain L c where run: "group_loop bbox_w max_words max_width_px [] [] words = (L, c)"
    by (cases "group_loop bbox_w max_words max_width_px [] [] words")
  let ?G = "group_words_into_lines words bbox_w max_words max_width_px"
  have G: "?G = (if c \<noteq> [] then L @ [c] else L)"
    using run by (simp add: group_words_into_lines_def)
  have cat: "concat ?G = words"
    using group_loop_concat[OF run] unfolding G by auto
  have "(\<forall>l\<in>set L. int (length l) \<le> max_words \<and> l \<noteq> []) \<and> int (length c) \<le> max_words"
    using assms run by (rule group_loop_bound) (use assms in simp_all)
  then have bound: "\<forall>l\<in>set ?G. int (length l) \<le> max_words"
    unfolding G by simp
  have mpos: "0 < nat max_words" using assms by simp
  have mw: "rat_of_int max_words = rat_of_nat (nat max_words)" using assms by simp
  have "\<forall>l\<in>set ?G. length l \<le> nat max_words" using bound by auto
  then have "length (concat ?G) \<le> nat max_words * length ?G"
    by (rule concat_length_bound)
  then have "rat_of_nat (length words) \<le> rat_of_nat (nat max_words * length ?G)"
    unfolding cat by (simp only: of_nat_le_iff)
  then have "rat_of_nat (length words) / rat_of_nat (nat max_words) \<le> rat_of_nat (length ?G)"
    using mpos by (simp add: pos_divide_le_eq mult.commute)
  then have lower: "\<lceil>rat_of_nat (length words) / rat_of_int max_words\<rceil> \<le> int (length ?G)"
    unfolding mw by (simp add: ceiling_le_iff)
  have exact: "int (length ?G) = \<lceil>rat_of_nat (length words) / rat_of_int max_words\<rceil>"
    if wb: "width_breaks bbox_w max_words max_width_px [] words = 0"
  proof -
    have "length (if c \<noteq> [] then L @ [c] else L)
        = length ([] :: string list list)
          + (length ([] :: string list) + length words + nat max_words - 1) div nat max_words"
      using assms run _ wb by (rule group_loop_exact) (use assms in simp)
    then have "length ?G = (length words + nat max_words - 1) div nat max_words"
      unfolding G by simp
    then show ?thesis unfolding mw using ceiling_nat_div[OF mpos, of "length words"] by simp
  qed
  show ?thesis using lower exact bound cat by blast
qed

theorem line_grouping_witness:
  "\<lceil>rat_of_nat (length [''AA'', ''BB'', ''CC'']) / rat_of_int 2\<rceil>
      \<le> int (length (group_words_into_lines [''AA'', ''BB'', ''CC'']
                         (\<lambda>s. 10 * int (length s)) 2 1000))
   \<and> width_breaks (\<lambda>s. 10 * int (length s)) 2 1000 [] [''AA'', ''BB'', ''CC''] = 0
   \<and> int (length (group_words_into_lines [''AA'', ''BB'', ''CC'']
                         (\<lambda>s. 10 * int (length s)) 2 1000))
       = \<lceil>rat_of_nat (length [''AA'', ''BB'', ''CC'']) / rat_of_int 2\<rceil>
   \<and> concat (group_words_into_lines [''AA'', ''BB'', ''CC'']
                         (\<lambda>s. 10 * int (length s)) 2 1000) = [''AA'', ''BB'', ''CC'']"
proof -
  have wb: "width_breaks (\<lambda>s. 10 * int (length s)) 2 1000 [] [''AA'', ''BB'', ''CC''] = 0"
    by code_simp
  show ?thesis
    using line_grouping [of 2 "[''AA'', ''BB'', ''CC'']" "\<lambda>s. 10 * int (length s)" 1000] wb
    by simp
qed

section \<open>FancyText: the per-line frame cache, properties\<close>

lemma list_item_first: "fs \<noteq> [] \<Longrightarrow> list_item fs 0 = Inr (fs ! 0)"
  by (simp add: list_item_def)

lemma fast_path_clamps:
  assumes "np_frames c = Some fs" and "fs \<noteq> []" and "highlight_index < 0"
  shows "render_fancytext_frame words highlight_index box (Some c) = (Inr (fs ! 0), Some c)"
proof -
  have "max 0 highlight_index = 0" using assms(3) by simp
  then show ?thesis
    using assms(1,2) by (simp add: render_fancytext_frame_def list_item_first)
qed

lemma cold_path_populates:
  assumes "np_frames c0 = None"
  shows "snd (render_fancytext_frame words first_index box (Some c0))
       = Some (c0\<lparr>np_frames := Some (map (frame_pieces (length words) box) [0..<length words]),
                   text_only_masks := Some (map (text_only_pieces (length words)) [0..<length words])\<rparr>)"
  using assms by (simp add: render_fancytext_frame_def Let_def)

lemma highlighted_word_in_frame:
  "hi < n \<Longrightarrow> HighlightWord hi \<in> set (frame_pieces n box hi)"
  by (auto simp: frame_pieces_def text_only_pieces_def)

text \<open>
  Claim C10. Let the cache of a line of at least one word have been populated by a
  first call (with any index, on a dictionary without frames). Then a call with a
  negative \<open>highlight_index\<close> returns the frame of index 0 and leaves the cache as
  it is; that frame has word 0 highlighted; and every frame of the cache has some
  word of the line highlighted, so no cached variant is without a highlight.
\<close>

theorem negative_highlight_index:
  assumes "highlight_index < 0" and "words \<noteq> []" and "np_frames c0 = None"
    and "cache = snd (render_fancytext_frame words first_index box (Some c0))"
  shows "render_fancytext_frame words highlight_index box cache
           = (Inr (frame_pieces (length words) box 0), cache)
       \<and> HighlightWord 0 \<in> set (frame_pieces (length words) box 0)
       \<and> (\<forall>c fs f. cache = Some c \<and> np_frames c = Some fs \<and> f \<in> set fs
             \<longrightarrow> (\<exists>k < length words. HighlightWord k \<in> set f))"
proof -
  let ?n = "length words"
  let ?fs = "map (frame_pieces ?n box) [0..<?n]"
  let ?c = "c0\<lparr>np_frames := Some ?fs,
                text_only_masks := Some (map (text_only_pieces ?n) [0..<?n])\<rparr>"
  have n: "0 < ?n" using assms(2) by simp
  have cache: "cache = Some ?c"
    unfolding assms(4) using assms(3) by (rule cold_path_populates)
  have fs: "np_frames ?c = Some ?fs" by simp
  have ne: "?fs \<noteq> []" using n by simp
  have first: "?fs ! 0 = frame_pieces ?n box 0" using n by (simp add: nth_map_upt)
  have a: "render_fancytext_frame words highlight_index box cache
      = (Inr (frame_pieces ?n box 0), cache)"
    unfolding cache using fast_path_clamps[OF fs ne assms(1)] first by simp
  have b: "HighlightWord 0 \<in> set (frame_pieces ?n box 0)"
    using n by (rule highlighted_word_in_frame)
  have c: "\<forall>c fs f. cache = Some c \<and> np_frames c = Some fs \<and> f \<in> set fs
             \<longrightarrow> (\<exists>k < ?n. HighlightWord k \<in> set f)"
  proof (intro allI impI)
    fix c fs f
    assume h: "cache = Some c \<and> np_frames c = Some fs \<and> f \<in> set fs"
    then have "fs = ?fs" using cache by auto
    then obtain k where "k < ?n" "f = frame_pieces ?n box k" using h by auto
    then show "\<exists>k < ?n. HighlightWord k \<in> set f"
      using highlighted_word_in_frame by blast
  qed
  show ?thesis using a b c by blast
qed

theorem negative_highlight_index_witness:
  "fst (render_fancytext_frame [''HI'', ''YOU'']  (-1) True
         (snd (render_fancytext_frame [''HI'', ''YOU''] 1 True
                (Some \<lparr>np_frames = None, text_only_masks = None\<rparr>))))
     = Inr [HighlightBox 0, HighlightWord 0, NormalWord 1]"
proof -
  have fp: "frame_pieces (length [''HI'', ''YOU'']) True 0
      = [HighlightBox 0, HighlightWord 0, NormalWord 1]"
    by code_simp
  have h: "(-1::int) < 0" "[''HI'', ''YOU''] \<noteq> []"
    "np_frames \<lparr>np_frames = None, text_only_masks = None\<rparr> = None"
    by simp_all
  show ?thesis
    using negative_highlight_index [OF h refl, where first_index=1 and box=True] unfolding fp by simp
qed

section \<open>FancyText: the effect pipeline, properties\<close>

text \<open>
  Claim C6. With every effect's enabled flag \<open>False\<close>, \<^verbatim>\<open>apply_advanced_effects\<close>
  returns the input frame array itself, whatever the mask, the stroke width and
  the other parameters are.
\<close>

theorem all_effects_disabled:
  assumes "\<not> chrome_enabled a" and "\<not> gradient_overlay_enabled a" and "\<not> texture_enabled a"
    and "\<not> bevel_emboss_enabled a" and "\<not> inner_shadow_enabled a" and "\<not> inner_glow_enabled a"
  shows "apply_advanced_effects env frame_arr text_mask_arr a = Inr frame_arr"
  using assms
  by (simp add: apply_advanced_effects_def stage_chrome_def stage_gradient_def stage_texture_def
      stage_bevel_def stage_inner_shadow_def stage_inner_glow_def)

theorem all_effects_disabled_witness:
  "apply_advanced_effects test_env [[(10, 20, 30, 255), (0, 0, 0, 0)]] [[255, 0]]
     (default_fx_args\<lparr>stroke_width := 4\<rparr>) = Inr [[(10, 20, 30, 255), (0, 0, 0, 0)]]"
  using all_effects_disabled [of "default_fx_args\<lparr>stroke_width := 4\<rparr>" test_env
      "[[(10, 20, 30, 255), (0, 0, 0, 0)]]" "[[255, 0]]"]
  by (simp add: default_fx_args_def)

text \<open>
  Claim C8. When no in-memory texture is supplied and the texture path is absent or
  cannot be opened and converted, the texture effect returns its input image.
\<close>

theorem texture_load_failure:
  assumes "tex_image = None"
    and "tex_path = None \<or> (\<exists>p. tex_path = Some p \<and> open_rgb env p = None)"
  shows "fx_texture env img text_mask tex_path sc opacity blend_mode tex_image = img"
  using assms by (auto simp: fx_texture_def)

theorem texture_load_failure_witness:
  "fx_texture test_env [[(10, 20, 30, 255)]] [[255]] (Some ''missing.png'') 1 (1/2) ''overlay'' None
     = [[(10, 20, 30, 255)]]"
proof -
  have "Some ''missing.png'' = None
      \<or> (\<exists>p. Some ''missing.png'' = Some p \<and> open_rgb test_env p = None)"
    by (simp add: test_env_def)
  then show ?thesis
    using texture_load_failure [where tex_image=None and tex_path="Some ''missing.png''"
        and env=test_env] by simp
qed

section \<open>FancyText: gradient overlay, properties\<close>




















end
